theory Spec2Isabelle
  imports Complex_Main
begin

section \<open>The SubNetree icon generator (assets/brand/generate-icons.py)\<close>

text \<open>
  The script draws a fixed tree-topology scene with Pillow and saves it as ICO and PNG
  files. The embedding below follows the script function by function.

  \<^item> A colour is a Python tuple of integers, modelled as an \<open>int list\<close>, so that the slice
    \<^verbatim>\<open>palette["sage"][:3]\<close> and the tuple built from it are list operations.
  \<^item> A palette is the dictionary with the ten keys both \<^verbatim>\<open>DARK\<close> and \<^verbatim>\<open>LIGHT\<close> define,
    modelled as a record (the key \<^verbatim>\<open>card\<close> is the field \<open>card_col\<close>).
  \<^item> The scale factor \<^verbatim>\<open>s = size / 256\<close> and the products \<^verbatim>\<open>x * s\<close> are binary
    floating-point values in the script. Division by 256 and the products with the
    design constants (integers and odd multiples of one half below 256) are exact for
    every size below \<open>2 ^ 44\<close>, so the model computes with exact rationals.
  \<^item> Pillow is not part of the repository. An image is modelled by what the script
    decides about it: its mode, its size, the colour it is created with and the
    sequence of drawing calls made on it, with their arguments. Rasterisation and
    file encoding are the library's.
  \<^item> Images are mutable objects: \<^verbatim>\<open>Image.new\<close> allocates one, the drawing calls
    change it in place. The world is a store of images (a reference is an index), the
    lines printed so far and the save calls made so far, passed through every function.
  \<^item> The model covers sizes from 1 upwards, the ones the exporters use.
\<close>

subsection \<open>Colours and palettes\<close>

type_synonym color = "int list"

record palette =
  bg :: color
  card_col :: color
  green :: color
  earth :: color
  sage :: color
  line_green :: color
  line_earth :: color
  line_faint :: color
  ring :: color
  sage_dim :: color

definition DARK :: palette where
  "DARK = \<lparr> bg = [12, 26, 14],
            card_col = [26, 46, 28],
            green = [74, 222, 128],
            earth = [196, 167, 125],
            sage = [156, 163, 137],
            line_green = [74, 222, 128, 89],
            line_earth = [196, 167, 125, 89],
            line_faint = [74, 222, 128, 18],
            ring = [74, 222, 128, 25],
            sage_dim = [156, 163, 137, 127] \<rparr>"

definition LIGHT :: palette where
  "LIGHT = \<lparr> bg = [245, 245, 240],
             card_col = [245, 245, 240],
             green = [22, 163, 74],
             earth = [146, 115, 78],
             sage = [107, 122, 86],
             line_green = [22, 101, 52, 102],
             line_earth = [146, 116, 78, 102],
             line_faint = [22, 101, 52, 18],
             ring = [22, 101, 52, 25],
             sage_dim = [100, 116, 80, 127] \<rparr>"

subsection \<open>Images, drawing calls and the world\<close>

type_synonym box = "int \<times> int \<times> int \<times> int"

text \<open>
  One constructor per \<^verbatim>\<open>ImageDraw\<close> method the script calls, holding the arguments
  the script passes: \<^verbatim>\<open>rounded_rectangle(xy, radius, fill)\<close>, \<^verbatim>\<open>rectangle(xy, fill)\<close>,
  \<^verbatim>\<open>line(xy, fill, width)\<close> and \<^verbatim>\<open>ellipse(xy, fill, outline, width)\<close>, where an
  argument the script leaves out is \<open>None\<close>.
\<close>

datatype draw_op =
    RoundedRectangle box int color
  | Rectangle box color
  | Line "(int \<times> int) \<times> (int \<times> int)" color int
  | Ellipse box "color option" "color option" "int option"

record image =
  im_mode :: string
  im_size :: "int \<times> int"
  im_fill :: color
  im_ops :: "draw_op list"

text \<open>
  A save call keeps the contents the images have when they are saved:
  \<^verbatim>\<open>im.save(path, format="ICO", sizes=..., append_images=...)\<close> or
  \<^verbatim>\<open>im.save(path, "PNG")\<close>.
\<close>

datatype save_call =
    SaveICO image "(int \<times> int) list" "image list"
  | SavePNG image

record world =
  heap :: "image list"
  stdout :: "string list"
  saved :: "(string \<times> save_call) list"

definition init_world :: world where
  "init_world = \<lparr> heap = [], stdout = [], saved = [] \<rparr>"

definition Image_new :: "string \<Rightarrow> int \<times> int \<Rightarrow> color \<Rightarrow> world \<Rightarrow> nat \<times> world" where
  "Image_new m xy c w =
     (length (heap w),
      w\<lparr> heap := heap w @ [\<lparr> im_mode = m, im_size = xy, im_fill = c, im_ops = [] \<rparr>] \<rparr>)"

text \<open>\<^verbatim>\<open>ImageDraw.Draw(img, "RGBA")\<close>: the drawing handle of an image is its reference.\<close>

definition ImageDraw_Draw :: "nat \<Rightarrow> string \<Rightarrow> nat" where
  "ImageDraw_Draw img m = img"

definition add_op :: "nat \<Rightarrow> draw_op \<Rightarrow> world \<Rightarrow> world" where
  "add_op d op w =
     w\<lparr> heap := (heap w)[d := (heap w ! d)\<lparr> im_ops := im_ops (heap w ! d) @ [op] \<rparr>] \<rparr>"

definition rounded_rectangle :: "nat \<Rightarrow> box \<Rightarrow> int \<Rightarrow> color \<Rightarrow> world \<Rightarrow> world" where
  "rounded_rectangle d xy radius fill = add_op d (RoundedRectangle xy radius fill)"

definition rectangle :: "nat \<Rightarrow> box \<Rightarrow> color \<Rightarrow> world \<Rightarrow> world" where
  "rectangle d xy fill = add_op d (Rectangle xy fill)"

definition line :: "nat \<Rightarrow> (int \<times> int) \<times> (int \<times> int) \<Rightarrow> color \<Rightarrow> int \<Rightarrow> world \<Rightarrow> world" where
  "line d xy fill width = add_op d (Line xy fill width)"

definition ellipse ::
  "nat \<Rightarrow> box \<Rightarrow> color option \<Rightarrow> color option \<Rightarrow> int option \<Rightarrow> world \<Rightarrow> world" where
  "ellipse d xy fill outline width = add_op d (Ellipse xy fill outline width)"

definition print :: "string \<Rightarrow> world \<Rightarrow> world" where
  "print str w = w\<lparr> stdout := stdout w @ [str] \<rparr>"

definition save :: "string \<Rightarrow> save_call \<Rightarrow> world \<Rightarrow> world" where
  "save path c w = w\<lparr> saved := saved w @ [(path, c)] \<rparr>"

subsection \<open>Python's \<^verbatim>\<open>int()\<close> and \<^verbatim>\<open>str()\<close>\<close>

text \<open>\<^verbatim>\<open>int(x)\<close> on a float drops the fractional part, towards zero.\<close>

definition py_int :: "rat \<Rightarrow> int" where
  "py_int q = (if 0 \<le> q then \<lfloor>q\<rfloor> else \<lceil>q\<rceil>)"

definition digit_char :: "nat \<Rightarrow> char" where
  "digit_char n = ''0123456789'' ! n"

fun str_nat :: "nat \<Rightarrow> string" where
  "str_nat n = (if n < 10 then [digit_char n] else str_nat (n div 10) @ [digit_char (n mod 10)])"

declare str_nat.simps [simp del]

definition py_str :: "int \<Rightarrow> string" where
  "py_str i = (if i < 0 then CHR ''-'' # str_nat (nat (- i)) else str_nat (nat i))"

fun join_str :: "string \<Rightarrow> string list \<Rightarrow> string" where
  "join_str sep [] = []"
| "join_str sep [x] = x"
| "join_str sep (x # y # ys) = x @ sep @ join_str sep (y # ys)"

text \<open>The \<^verbatim>\<open>str\<close> of a list of integers, as an f-string prints it.\<close>

definition py_str_list :: "int list \<Rightarrow> string" where
  "py_str_list xs = ''['' @ join_str '', '' (map py_str xs) @ '']''"

subsection \<open>The renderer: \<^verbatim>\<open>draw_icon\<close> and its local helpers\<close>

text \<open>
  The helpers \<^verbatim>\<open>sc\<close>, \<^verbatim>\<open>lw\<close>, \<^verbatim>\<open>draw_line\<close> and \<^verbatim>\<open>draw_node\<close> are closures over the
  scale \<open>s\<close> and the handle \<open>draw\<close>; here both are arguments.
\<close>

definition sc :: "rat \<Rightarrow> rat \<Rightarrow> rat \<Rightarrow> int \<times> int" where
  "sc s x y = (py_int (x * s), py_int (y * s))"

definition lw :: "rat \<Rightarrow> rat \<Rightarrow> int" where
  "lw s w = max 1 (py_int (w * s))"

definition draw_line ::
  "rat \<Rightarrow> nat \<Rightarrow> rat \<Rightarrow> rat \<Rightarrow> rat \<Rightarrow> rat \<Rightarrow> color \<Rightarrow> rat \<Rightarrow> world \<Rightarrow> world" where
  "draw_line s draw x1 y1 x2 y2 color width =
     line draw (sc s x1 y1, sc s x2 y2) color (lw s width)"

definition draw_node ::
  "rat \<Rightarrow> nat \<Rightarrow> rat \<Rightarrow> rat \<Rightarrow> rat \<Rightarrow> rat \<Rightarrow> color \<Rightarrow> color \<Rightarrow> color \<Rightarrow> rat \<Rightarrow> world \<Rightarrow> world" where
  "draw_node s draw cx cy outer_r inner_r stroke_color fill_color bg_color stroke_w w =
     (let (ox, oy) = sc s cx cy;
          or_px = max 1 (py_int (outer_r * s));
          ir_px = max 1 (py_int (inner_r * s));
          sw = max 1 (py_int (stroke_w * s));
          w = ellipse draw (ox - or_px, oy - or_px, ox + or_px, oy + or_px)
                (Some bg_color) (Some stroke_color) (Some sw) w
      in if ir_px > 0
         then ellipse draw (ox - ir_px, oy - ir_px, ox + ir_px, oy + ir_px)
                (Some fill_color) None None w
         else w)"

definition draw_icon :: "int \<Rightarrow> palette \<Rightarrow> bool \<Rightarrow> world \<Rightarrow> nat \<times> world" where
  "draw_icon sz pal rounded_bg w0 =
     (let (img, w) = Image_new ''RGBA'' (sz, sz) [0, 0, 0, 0] w0;
          draw = ImageDraw_Draw img ''RGBA'';
          s = of_int sz / 256;
          \<comment> \<open>Background\<close>
          w = (if rounded_bg
               then (let r = py_int (32 * s);
                         r = (if r < 2 then 2 else r)
                     in rounded_rectangle draw (0, 0, sz - 1, sz - 1) r (bg pal) w)
               else rectangle draw (0, 0, sz - 1, sz - 1) (bg pal) w);
          show_details = (sz \<ge> 32);
          show_satellites = (sz \<ge> 48);
          show_ring = (sz \<ge> 64);
          \<comment> \<open>Outer ring\<close>
          w = (if show_ring
               then (let (cx, cy) = sc s 128 128;
                         r = py_int (114 * s)
                     in ellipse draw (cx - r, cy - r, cx + r, cy + r)
                          None (Some (ring pal)) (Some (lw s 2)) w)
               else w);
          \<comment> \<open>Trunk\<close>
          w = draw_line s draw 128 200 128 132 (line_green pal) 5 w;
          \<comment> \<open>Main branches\<close>
          w = draw_line s draw 128 132 72 88 (line_green pal) (9 / 2) w;
          w = draw_line s draw 128 132 184 88 (line_green pal) (9 / 2) w;
          \<comment> \<open>Leaf branches\<close>
          w = draw_line s draw 72 88 44 56 (line_earth pal) (7 / 2) w;
          w = draw_line s draw 72 88 100 56 (line_earth pal) (7 / 2) w;
          w = draw_line s draw 184 88 156 56 (line_earth pal) (7 / 2) w;
          w = draw_line s draw 184 88 212 56 (line_earth pal) (7 / 2) w;
          \<comment> \<open>Discovery links\<close>
          w = (if show_details
               then draw_line s draw 100 56 156 56 (line_faint pal) 2 w
               else w);
          \<comment> \<open>Satellite lines\<close>
          w = (if show_satellites
               then (let sage_line = take 3 (sage pal) @ [38];
                         w = draw_line s draw 128 132 96 156 sage_line 2 w
                     in draw_line s draw 128 132 164 152 sage_line 2 w)
               else w);
          \<comment> \<open>Leaf device nodes (earth)\<close>
          w = fold (\<lambda>(cx, cy). draw_node s draw cx cy 10 (9 / 2)
                       (earth pal) (earth pal) (card_col pal) 3)
                [(44, 56), (100, 56), (156, 56), (212, 56)] w;
          \<comment> \<open>Subnet gateway nodes (green)\<close>
          w = fold (\<lambda>(cx, cy). draw_node s draw cx cy 13 6
                       (green pal) (green pal) (card_col pal) 4)
                [(72, 88), (184, 88)] w;
          \<comment> \<open>Junction node\<close>
          w = draw_node s draw 128 132 15 (15 / 2) (green pal) (green pal) (card_col pal) 4 w;
          \<comment> \<open>Satellite nodes (sage)\<close>
          w = (if show_satellites
               then fold (\<lambda>(cx, cy). draw_node s draw cx cy 7 3
                            (sage_dim pal) (sage pal) (card_col pal) (5 / 2))
                      [(96, 156), (164, 152)] w
               else w);
          \<comment> \<open>Root server node (glow ring + node)\<close>
          w = (if show_ring
               then (let (ox, oy) = sc s 128 200;
                         gr = py_int (21 * s)
                     in ellipse draw (ox - gr, oy - gr, ox + gr, oy + gr)
                          None (Some (ring pal)) (Some (lw s 2)) w)
               else w);
          w = draw_node s draw 128 200 18 9 (green pal) (green pal) (card_col pal) 5 w
      in (img, w))"

subsection \<open>The exporters and the entry point\<close>

text \<open>
  \<^verbatim>\<open>SCRIPT_DIR\<close> (computed from \<^verbatim>\<open>__file__\<close>) and \<^verbatim>\<open>os.path.join\<close> (platform
  dependent) are parameters: \<open>script_dir\<close> and \<open>path_join\<close>.
\<close>

definition generate_ico ::
  "string \<Rightarrow> (string \<Rightarrow> string \<Rightarrow> string) \<Rightarrow> string \<Rightarrow> palette \<Rightarrow> world \<Rightarrow> world" where
  "generate_ico script_dir path_join filename pal w0 =
     (let sizes = [16, 24, 32, 48, 64, 128, 256];
          (images, w) = fold (\<lambda>sz (images, w).
                                let (img, w) = draw_icon sz pal (sz \<ge> 32) w
                                in (images @ [img], w))
                          sizes ([], w0);
          path = path_join script_dir filename;
          w = save path (SaveICO (heap w ! (images ! 0))
                                 (map (\<lambda>sz. (sz, sz)) sizes)
                                 (map (\<lambda>i. heap w ! i) (drop 1 images))) w
      in print (''Created '' @ path @ '' ('' @ py_str (int (length sizes)) @ '' sizes: ''
                @ py_str_list sizes @ '')'') w)"

definition generate_pngs ::
  "string \<Rightarrow> (string \<Rightarrow> string \<Rightarrow> string) \<Rightarrow> string \<Rightarrow> palette \<Rightarrow> world \<Rightarrow> world" where
  "generate_pngs script_dir path_join prefix pal w0 =
     fold (\<lambda>sz w.
             let (img, w) = draw_icon sz pal True w;
                 path = path_join script_dir (prefix @ ''-'' @ py_str sz @ ''.png'');
                 w = save path (SavePNG (heap w ! img)) w
             in print (''Created '' @ path) w)
       [32, 64, 128, 256, 512] w0"

definition main :: "string \<Rightarrow> (string \<Rightarrow> string \<Rightarrow> string) \<Rightarrow> world \<Rightarrow> world" where
  "main script_dir path_join w0 =
     (let w = print (''Generating SubNetree icon files...'' @ [CHR 0x0A]) w0;
          w = generate_ico script_dir path_join ''subnetree.ico'' DARK w;
          w = generate_ico script_dir path_join ''subnetree-light.ico'' LIGHT w;
          w = print [] w;
          w = generate_pngs script_dir path_join ''icon-dark'' DARK w;
          w = generate_pngs script_dir path_join ''icon-light'' LIGHT w
      in print ([CHR 0x0A] @ ''Done!'') w)"

text \<open>
  \<^verbatim>\<open>posixpath.join\<close> for two components, the instance of \<open>path_join\<close> used where a
  concrete run is evaluated.
\<close>

definition posix_join :: "string \<Rightarrow> string \<Rightarrow> string" where
  "posix_join a b =
     (if b \<noteq> [] \<and> hd b = CHR ''/'' then b
      else if a = [] \<or> last a = CHR ''/'' then a @ b
      else a @ ''/'' @ b)"

text \<open>The image a call of \<open>draw_icon\<close> returns: the contents of the returned reference.\<close>

definition render :: "int \<Rightarrow> palette \<Rightarrow> bool \<Rightarrow> world \<Rightarrow> image" where
  "render sz pal rounded_bg w0 = (let (img, w) = draw_icon sz pal rounded_bg w0 in heap w ! img)"

subsection \<open>Reading the drawing calls of an image\<close>

text \<open>
  The kinds of call: a line, a ring (an ellipse with an outline and no fill, as the
  outer ring and the glow ring are drawn) and a disc (an ellipse with a fill, as
  \<open>draw_node\<close> draws), and the background fill.
\<close>

fun is_line :: "draw_op \<Rightarrow> bool" where
  "is_line (Line xy c width) = True"
| "is_line op = False"

fun is_ring :: "draw_op \<Rightarrow> bool" where
  "is_ring (Ellipse xy None outline width) = True"
| "is_ring op = False"

fun is_disc :: "draw_op \<Rightarrow> bool" where
  "is_disc (Ellipse xy (Some c) outline width) = True"
| "is_disc op = False"

fun is_background :: "draw_op \<Rightarrow> bool" where
  "is_background (RoundedRectangle xy r c) = True"
| "is_background (Rectangle xy c) = True"
| "is_background op = False"

text \<open>The background fill with rounded corners.\<close>

fun is_rounded :: "draw_op \<Rightarrow> bool" where
  "is_rounded (RoundedRectangle xy r c) = True"
| "is_rounded op = False"

text \<open>The widths a call is given, and the radii: an ellipse is given its bounding box,
  whose half extents are its radii.\<close>

fun op_widths :: "draw_op \<Rightarrow> int list" where
  "op_widths (Line xy c width) = [width]"
| "op_widths (Ellipse xy fill outline (Some width)) = [width]"
| "op_widths op = []"

fun op_radii :: "draw_op \<Rightarrow> int list" where
  "op_radii (RoundedRectangle xy r c) = [r]"
| "op_radii (Ellipse (x0, y0, x1, y1) fill outline width) = [(x1 - x0) div 2, (y1 - y0) div 2]"
| "op_radii op = []"

fun is_png :: "save_call \<Rightarrow> bool" where
  "is_png (SavePNG im) = True"
| "is_png c = False"

subsection \<open>The frames of an ICO file\<close>

text \<open>
  Pillow's ICO writer is not part of the repository. Of the sizes a save call asks for,
  it writes those that are not larger than the image \<^verbatim>\<open>save\<close> is called on (and not
  larger than 256), one frame each; the appended images only replace the scaled copies
  of that image at their own sizes. \<open>ico_written_sizes\<close> gives the sizes of the frames
  written by a save call under this rule; a PNG file holds the one image.
\<close>

fun ico_written_sizes :: "save_call \<Rightarrow> (int \<times> int) list" where
  "ico_written_sizes (SaveICO im sizes append_images) =
     filter (\<lambda>(a, b). a \<le> fst (im_size im) \<and> b \<le> snd (im_size im) \<and> a \<le> 256 \<and> b \<le> 256)
       (remdups sizes)"
| "ico_written_sizes (SavePNG im) = [im_size im]"

subsection \<open>The drawing calls of \<open>draw_icon\<close> in closed form\<close>

text \<open>
  Derived forms used in the proofs: several calls at once on one image, the call
  \<open>draw_line\<close> makes, the two calls \<open>draw_node\<close> makes, and the whole sequence of
  \<open>draw_icon\<close>. Lemma \<open>draw_icon_eq\<close> shows that \<open>draw_icon\<close> makes exactly these.
\<close>

definition draws :: "nat \<Rightarrow> draw_op list \<Rightarrow> world \<Rightarrow> world" where
  "draws d xs w =
     w\<lparr> heap := (heap w)[d := (heap w ! d)\<lparr> im_ops := im_ops (heap w ! d) @ xs \<rparr>] \<rparr>"

definition line_op :: "rat \<Rightarrow> rat \<Rightarrow> rat \<Rightarrow> rat \<Rightarrow> rat \<Rightarrow> color \<Rightarrow> rat \<Rightarrow> draw_op" where
  "line_op s x1 y1 x2 y2 c width = Line (sc s x1 y1, sc s x2 y2) c (lw s width)"

definition px :: "rat \<Rightarrow> rat \<Rightarrow> int" where
  "px s r = max 1 (py_int (r * s))"

definition disc :: "int \<times> int \<Rightarrow> int \<Rightarrow> box" where
  "disc c r = (fst c - r, snd c - r, fst c + r, snd c + r)"

definition node_ops ::
  "rat \<Rightarrow> rat \<Rightarrow> rat \<Rightarrow> rat \<Rightarrow> rat \<Rightarrow> color \<Rightarrow> color \<Rightarrow> color \<Rightarrow> rat \<Rightarrow> draw_op list" where
  "node_ops s cx cy outer_r inner_r stroke fillc bgc stroke_w =
     [Ellipse (disc (sc s cx cy) (px s outer_r)) (Some bgc) (Some stroke) (Some (px s stroke_w)),
      Ellipse (disc (sc s cx cy) (px s inner_r)) (Some fillc) None None]"

definition icon_ops :: "int \<Rightarrow> palette \<Rightarrow> bool \<Rightarrow> draw_op list" where
  "icon_ops sz pal rounded_bg =
     (let s = of_int sz / 256 in
      [if rounded_bg
       then RoundedRectangle (0, 0, sz - 1, sz - 1) (max 2 (py_int (32 * s))) (bg pal)
       else Rectangle (0, 0, sz - 1, sz - 1) (bg pal)]
      @ (if 64 \<le> sz
         then [Ellipse (disc (sc s 128 128) (py_int (114 * s))) None (Some (ring pal))
                 (Some (lw s 2))]
         else [])
      @ [line_op s 128 200 128 132 (line_green pal) 5,
         line_op s 128 132 72 88 (line_green pal) (9 / 2),
         line_op s 128 132 184 88 (line_green pal) (9 / 2),
         line_op s 72 88 44 56 (line_earth pal) (7 / 2),
         line_op s 72 88 100 56 (line_earth pal) (7 / 2),
         line_op s 184 88 156 56 (line_earth pal) (7 / 2),
         line_op s 184 88 212 56 (line_earth pal) (7 / 2)]
      @ (if 32 \<le> sz then [line_op s 100 56 156 56 (line_faint pal) 2] else [])
      @ (if 48 \<le> sz
         then [line_op s 128 132 96 156 (take 3 (sage pal) @ [38]) 2,
               line_op s 128 132 164 152 (take 3 (sage pal) @ [38]) 2]
         else [])
      @ node_ops s 44 56 10 (9 / 2) (earth pal) (earth pal) (card_col pal) 3
      @ node_ops s 100 56 10 (9 / 2) (earth pal) (earth pal) (card_col pal) 3
      @ node_ops s 156 56 10 (9 / 2) (earth pal) (earth pal) (card_col pal) 3
      @ node_ops s 212 56 10 (9 / 2) (earth pal) (earth pal) (card_col pal) 3
      @ node_ops s 72 88 13 6 (green pal) (green pal) (card_col pal) 4
      @ node_ops s 184 88 13 6 (green pal) (green pal) (card_col pal) 4
      @ node_ops s 128 132 15 (15 / 2) (green pal) (green pal) (card_col pal) 4
      @ (if 48 \<le> sz
         then node_ops s 96 156 7 3 (sage_dim pal) (sage pal) (card_col pal) (5 / 2)
              @ node_ops s 164 152 7 3 (sage_dim pal) (sage pal) (card_col pal) (5 / 2)
         else [])
      @ (if 64 \<le> sz
         then [Ellipse (disc (sc s 128 200) (py_int (21 * s))) None (Some (ring pal))
                 (Some (lw s 2))]
         else [])
      @ node_ops s 128 200 18 9 (green pal) (green pal) (card_col pal) 5)"

definition icon_image :: "int \<Rightarrow> palette \<Rightarrow> bool \<Rightarrow> image" where
  "icon_image sz pal rounded_bg =
     \<lparr> im_mode = ''RGBA'', im_size = (sz, sz), im_fill = [0, 0, 0, 0],
       im_ops = icon_ops sz pal rounded_bg \<rparr>"

subsection \<open>The corner radius as the specification words it\<close>

text \<open>
  The specification gives the corner radius of the rounded background as
  \<open>max(2, round(32 \<times> scale))\<close> with \<open>scale = size / 256\<close>; \<open>round\<close> is rounding to the
  nearest integer.
\<close>

definition spec_corner_radius :: "int \<Rightarrow> int" where
  "spec_corner_radius sz = max 2 (round (32 * (of_int sz / 256 :: rat)))"

subsection \<open>Nodes and detail layers, for stating the properties\<close>


text \<open>
  The detail elements, as the script draws them at a given size: the discovery link
  (line 111), the two satellite lines (lines 115 to 117), the outer circles and the inner
  dots of the two satellite nodes (line 133), and the outer ring and the glow ring
  (lines 92 to 94 and 137 to 139).
\<close>

definition discovery_link :: "int \<Rightarrow> palette \<Rightarrow> draw_op list" where
  "discovery_link sz pal =
     (let s = of_int sz / 256
      in [Line (sc s 100 56, sc s 156 56) (line_faint pal) (lw s 2)])"

definition satellite_lines :: "int \<Rightarrow> palette \<Rightarrow> draw_op list" where
  "satellite_lines sz pal =
     (let s = of_int sz / 256
      in [Line (sc s 128 132, sc s 96 156) (take 3 (sage pal) @ [38]) (lw s 2),
          Line (sc s 128 132, sc s 164 152) (take 3 (sage pal) @ [38]) (lw s 2)])"

definition satellite_strokes :: "int \<Rightarrow> palette \<Rightarrow> draw_op list" where
  "satellite_strokes sz pal =
     (let s = of_int sz / 256
      in [Ellipse (disc (sc s 96 156) (max 1 (py_int (7 * s))))
            (Some (card_col pal)) (Some (sage_dim pal)) (Some (max 1 (py_int (5 / 2 * s)))),
          Ellipse (disc (sc s 164 152) (max 1 (py_int (7 * s))))
            (Some (card_col pal)) (Some (sage_dim pal)) (Some (max 1 (py_int (5 / 2 * s))))])"

definition satellite_dots :: "int \<Rightarrow> palette \<Rightarrow> draw_op list" where
  "satellite_dots sz pal =
     (let s = of_int sz / 256
      in [Ellipse (disc (sc s 96 156) (max 1 (py_int (3 * s)))) (Some (sage pal)) None None,
          Ellipse (disc (sc s 164 152) (max 1 (py_int (3 * s)))) (Some (sage pal)) None None])"

definition rings :: "int \<Rightarrow> palette \<Rightarrow> draw_op list" where
  "rings sz pal =
     (let s = of_int sz / 256
      in [Ellipse (disc (sc s 128 128) (py_int (114 * s))) None (Some (ring pal)) (Some (lw s 2)),
          Ellipse (disc (sc s 128 200) (py_int (21 * s))) None (Some (ring pal)) (Some (lw s 2))])"

text \<open>Every call of \<open>xs\<close> is among the drawing calls of the image.\<close>

definition drawn :: "draw_op list \<Rightarrow> image \<Rightarrow> bool" where
  "drawn xs im = list_all (\<lambda>x. x \<in> set (im_ops im)) xs"

section \<open>Properties\<close>

subsection \<open>The closed form of \<open>draw_icon\<close>\<close>

lemma add_op_draws: "add_op d op = draws d [op]"
  by (rule ext) (simp add: add_op_def draws_def)

lemma draws_draws: "draws d ys (draws d xs w) = draws d (xs @ ys) w"
  by (cases "d < length (heap w)") (simp_all add: draws_def list_update_beyond)

lemma draw_line_draws:
  "draw_line s d x1 y1 x2 y2 c width = draws d [line_op s x1 y1 x2 y2 c width]"
  by (simp add: draw_line_def line_def line_op_def add_op_draws)

lemma px_pos: "0 < px s r"
  by (simp add: px_def)

lemma draw_node_draws:
  "draw_node s d cx cy outer_r inner_r stroke fillc bgc stroke_w w =
     draws d (node_ops s cx cy outer_r inner_r stroke fillc bgc stroke_w) w"
  using px_pos [of s inner_r]
  by (simp add: draw_node_def node_ops_def ellipse_def add_op_draws draws_draws sc_def disc_def
      px_def Let_def)

lemma Image_new_draws:
  "draws (length (heap w0)) xs (snd (Image_new m xy c w0)) =
     w0\<lparr> heap := heap w0 @ [\<lparr> im_mode = m, im_size = xy, im_fill = c, im_ops = xs \<rparr>] \<rparr>"
  by (simp add: Image_new_def draws_def)

lemma draw_icon_draws:
  "draw_icon sz pal rb w0 =
     (length (heap w0),
      draws (length (heap w0)) (icon_ops sz pal rb)
        (snd (Image_new ''RGBA'' (sz, sz) [0, 0, 0, 0] w0)))"
  apply (simp add: draw_icon_def Let_def split_def ImageDraw_Draw_def draw_line_draws
      draw_node_draws rounded_rectangle_def rectangle_def ellipse_def add_op_draws draws_draws
      icon_ops_def disc_def max_def)
  apply (simp add: Image_new_def)
  done

lemma draw_icon_eq:
  "draw_icon sz pal rb w0 =
     (length (heap w0), w0\<lparr> heap := heap w0 @ [icon_image sz pal rb] \<rparr>)"
  by (simp only: draw_icon_draws Image_new_draws icon_image_def)

lemma render_eq: "render sz pal rb w0 = icon_image sz pal rb"
  by (simp add: render_def draw_icon_eq)

subsection \<open>Arithmetic of the scaling\<close>

lemma py_int_nonneg: "0 \<le> q \<Longrightarrow> py_int q = \<lfloor>q\<rfloor>"
  by (simp add: py_int_def)

lemma py_int_32: "1 \<le> sz \<Longrightarrow> py_int (32 * (of_int sz / 256)) = sz div 8"
proof -
  assume sz: "1 \<le> sz"
  have eq: "32 * (of_int sz / 256) = (of_int sz :: rat) / of_int 8" by simp
  have "0 \<le> (of_int sz :: rat) / of_int 8" using sz by simp
  then show ?thesis
    unfolding eq by (simp only: py_int_nonneg floor_divide_of_int_eq)
qed

lemma py_int_numeral_div [simp]:
  "py_int (numeral a / numeral b) = numeral a div numeral b"
  using floor_divide_of_int_eq [of "numeral a" "numeral b", where ?'a = rat]
  by (simp add: py_int_def)

lemma py_int_numeral [simp]: "py_int (numeral a) = numeral a"
  by (simp add: py_int_def)

lemma py_int_0 [simp]: "py_int 0 = 0"
  by (simp add: py_int_def)

lemma py_int_1 [simp]: "py_int 1 = 1"
  by (simp add: py_int_def)

lemma py_int_one_div [simp]: "py_int (1 / numeral b) = 1 div numeral b"
  using floor_divide_of_int_eq [of 1 "numeral b", where ?'a = rat]
  by (simp add: py_int_def)

lemma py_int_8: "1 \<le> sz \<Longrightarrow> py_int (of_int sz / 8) = sz div 8"
  using py_int_32 [of sz] by simp

lemma round_rat_numeral_div [simp]:
  "round (numeral a / numeral b :: rat) = (2 * numeral a + numeral b) div (2 * numeral b)"
proof -
  have "(numeral a / numeral b :: rat) + 1 / 2
          = of_int (2 * numeral a + numeral b) / of_int (2 * numeral b)"
    by (simp add: field_simps)
  then show ?thesis
    unfolding round_def by (simp only: floor_divide_of_int_eq)
qed

lemma ring_radius: "64 \<le> sz \<Longrightarrow> 28 \<le> py_int (114 * (of_int sz / 256))"
proof -
  assume a: "64 \<le> sz"
  then have "(64::rat) \<le> of_int sz" by linarith
  then have "(28::rat) \<le> 114 * (of_int sz / 256)" by simp
  then show ?thesis by (simp add: py_int_def le_floor_iff)
qed

lemma glow_radius: "64 \<le> sz \<Longrightarrow> 5 \<le> py_int (21 * (of_int sz / 256))"
proof -
  assume a: "64 \<le> sz"
  then have "(64::rat) \<le> of_int sz" by linarith
  then have "(5::rat) \<le> 21 * (of_int sz / 256)" by simp
  then show ?thesis by (simp add: py_int_def le_floor_iff)
qed


lemma lw_pos: "1 \<le> lw s x"
  by (simp add: lw_def)

lemma px_ge1: "1 \<le> px s x"
  by (simp add: px_def)


subsection \<open>Kinds of call in the closed form\<close>

lemma op_radii_disc: "op_radii (Ellipse (disc c r) f ol wd) = [r, r]"
  by (simp add: disc_def)

lemma op_widths_line_op: "op_widths (line_op s a b c d col wd) = [lw s wd]"
  by (simp add: line_op_def)

lemma op_radii_line_op: "op_radii (line_op s a b c d col wd) = []"
  by (simp add: line_op_def)

lemma is_line_line_op [simp]: "is_line (line_op s a b c d col wd)"
  by (simp add: line_op_def)

lemma is_ring_line_op [simp]: "\<not> is_ring (line_op s a b c d col wd)"
  by (simp add: line_op_def)

lemma is_disc_line_op [simp]: "\<not> is_disc (line_op s a b c d col wd)"
  by (simp add: line_op_def)

lemma filter_node_ops [simp]:
  "filter is_disc (node_ops s cx cy ro ri st fc c sw) = node_ops s cx cy ro ri st fc c sw"
  "filter is_line (node_ops s cx cy ro ri st fc c sw) = []"
  "filter is_ring (node_ops s cx cy ro ri st fc c sw) = []"
  "length (node_ops s cx cy ro ri st fc c sw) = 2"
  by (simp_all add: node_ops_def)


lemma counts:
  "length (filter is_line (icon_ops sz pal rb)) = (if 48 \<le> sz then 10 else if 32 \<le> sz then 8 else 7)"
  "length (filter is_ring (icon_ops sz pal rb)) = (if 64 \<le> sz then 2 else 0)"
  "length (filter is_disc (icon_ops sz pal rb)) = (if 48 \<le> sz then 20 else 16)"
  "length (filter is_background (icon_ops sz pal rb)) = 1"
  "length (icon_ops sz pal rb) = (if 64 \<le> sz then 33 else if 48 \<le> sz then 31 else if 32 \<le> sz then 25 else 24)"
      apply (simp_all add: icon_ops_def Let_def)
  apply (simp_all add: node_ops_def line_op_def)
  done

lemma drawn_layers:
  "32 \<le> sz \<Longrightarrow> drawn (discovery_link sz pal) (icon_image sz pal rb)"
  "48 \<le> sz \<Longrightarrow> drawn (satellite_lines sz pal) (icon_image sz pal rb)"
  "48 \<le> sz \<Longrightarrow> drawn (satellite_strokes sz pal) (icon_image sz pal rb)"
  "48 \<le> sz \<Longrightarrow> drawn (satellite_dots sz pal) (icon_image sz pal rb)"
  "64 \<le> sz \<Longrightarrow> drawn (rings sz pal) (icon_image sz pal rb)"
  by (simp_all add: drawn_def discovery_link_def satellite_lines_def satellite_strokes_def satellite_dots_def
       rings_def icon_image_def icon_ops_def Let_def line_op_def node_ops_def px_def)

lemma ops_16:
  "icon_ops 16 pal rb = 
     (if rb then RoundedRectangle (0, 0, 15, 15) 2 (bg pal) else Rectangle (0, 0, 15, 15) (bg pal)) #
     [Line ((8, 12), 8, 8) (line_green pal) 1,
  Line ((8, 8), 4, 5) (line_green pal) 1,
  Line ((8, 8), 11, 5) (line_green pal) 1,
  Line ((4, 5), 2, 3) (line_earth pal) 1,
  Line ((4, 5), 6, 3) (line_earth pal) 1,
  Line ((11, 5), 9, 3) (line_earth pal) 1,
  Line ((11, 5), 13, 3) (line_earth pal) 1,
  Ellipse (1, 2, 3, 4) (Some (card_col pal)) (Some (earth pal)) (Some 1),
  Ellipse (1, 2, 3, 4) (Some (earth pal)) None None,
  Ellipse (5, 2, 7, 4) (Some (card_col pal)) (Some (earth pal)) (Some 1),
  Ellipse (5, 2, 7, 4) (Some (earth pal)) None None,
  Ellipse (8, 2, 10, 4) (Some (card_col pal)) (Some (earth pal)) (Some 1),
  Ellipse (8, 2, 10, 4) (Some (earth pal)) None None,
  Ellipse (12, 2, 14, 4) (Some (card_col pal)) (Some (earth pal)) (Some 1),
  Ellipse (12, 2, 14, 4) (Some (earth pal)) None None,
  Ellipse (3, 4, 5, 6) (Some (card_col pal)) (Some (green pal)) (Some 1),
  Ellipse (3, 4, 5, 6) (Some (green pal)) None None,
  Ellipse (10, 4, 12, 6) (Some (card_col pal)) (Some (green pal)) (Some 1),
  Ellipse (10, 4, 12, 6) (Some (green pal)) None None,
  Ellipse (7, 7, 9, 9) (Some (card_col pal)) (Some (green pal)) (Some 1),
  Ellipse (7, 7, 9, 9) (Some (green pal)) None None,
  Ellipse (7, 11, 9, 13) (Some (card_col pal)) (Some (green pal)) (Some 1),
  Ellipse (7, 11, 9, 13) (Some (green pal)) None None]"
  by (simp add: icon_ops_def Let_def line_op_def node_ops_def px_def sc_def disc_def lw_def)

subsection \<open>The exporters in closed form\<close>

lemma py_str_values:
  "py_str 7 = ''7''" "py_str 16 = ''16''" "py_str 24 = ''24''" "py_str 32 = ''32''"
  "py_str 48 = ''48''" "py_str 64 = ''64''" "py_str 128 = ''128''" "py_str 256 = ''256''"
  "py_str 512 = ''512''"
  by (simp_all add: py_str_def str_nat.simps digit_char_def)

lemma generate_ico_eq:
  "generate_ico script_dir path_join filename pal w =
     w\<lparr> heap := heap w @ [icon_image 16 pal False, icon_image 24 pal False, icon_image 32 pal True,
                          icon_image 48 pal True, icon_image 64 pal True, icon_image 128 pal True,
                          icon_image 256 pal True],
        saved := saved w @ [(path_join script_dir filename,
                   SaveICO (icon_image 16 pal False)
                     [(16, 16), (24, 24), (32, 32), (48, 48), (64, 64), (128, 128), (256, 256)]
                     [icon_image 24 pal False, icon_image 32 pal True, icon_image 48 pal True,
                      icon_image 64 pal True, icon_image 128 pal True, icon_image 256 pal True])],
        stdout := stdout w @ [''Created '' @ path_join script_dir filename
                              @ '' (7 sizes: [16, 24, 32, 48, 64, 128, 256])''] \<rparr>"
  by (simp add: generate_ico_def Let_def draw_icon_eq save_def print_def py_str_values
      py_str_list_def nth_append)

lemma generate_pngs_eq:
  "generate_pngs script_dir path_join prefix pal w =
     w\<lparr> heap := heap w @ [icon_image 32 pal True, icon_image 64 pal True, icon_image 128 pal True,
                          icon_image 256 pal True, icon_image 512 pal True],
        saved := saved w @
          [(path_join script_dir (prefix @ ''-32.png''), SavePNG (icon_image 32 pal True)),
           (path_join script_dir (prefix @ ''-64.png''), SavePNG (icon_image 64 pal True)),
           (path_join script_dir (prefix @ ''-128.png''), SavePNG (icon_image 128 pal True)),
           (path_join script_dir (prefix @ ''-256.png''), SavePNG (icon_image 256 pal True)),
           (path_join script_dir (prefix @ ''-512.png''), SavePNG (icon_image 512 pal True))],
        stdout := stdout w @
          [''Created '' @ path_join script_dir (prefix @ ''-32.png''),
           ''Created '' @ path_join script_dir (prefix @ ''-64.png''),
           ''Created '' @ path_join script_dir (prefix @ ''-128.png''),
           ''Created '' @ path_join script_dir (prefix @ ''-256.png''),
           ''Created '' @ path_join script_dir (prefix @ ''-512.png'')] \<rparr>"
  by (simp add: generate_pngs_def Let_def draw_icon_eq save_def print_def py_str_values nth_append)

subsection \<open>Nodes\<close>




subsection \<open>The background\<close>

text \<open>
  Claim C2, as stated, fails. At size 23 with a rounded background the script passes
  the corner radius 2: \<open>int(32 * 23 / 256) = int(2.875) = 2\<close>, since \<open>int\<close> drops the
  fraction. Rounding to the nearest integer, as the claim words it, gives 3; 2.875 is
  not a tie, so this does not depend on how ties are rounded.
\<close>

theorem corner_radius_counterexample:
  "hd (im_ops (render 23 DARK True init_world)) = RoundedRectangle (0, 0, 22, 22) 2 [12, 26, 14]
   \<and> spec_corner_radius 23 = 3"
  by (simp add: render_eq icon_image_def icon_ops_def Let_def DARK_def spec_corner_radius_def)

text \<open>
  Claim C2, amended. For every size from 1 upwards the first drawing call fills the
  background with the palette's background colour over the box (0, 0, size - 1, size - 1):
  a rounded rectangle whose corner radius is \<open>max(2, size div 8)\<close>, that is
  \<open>32 * size / 256\<close> rounded down, when the flag is true, and a plain rectangle when it
  is false. No other call is a background fill.
\<close>

theorem background_fill:
  "1 \<le> sz \<Longrightarrow>
     im_ops (render sz pal rb w) \<noteq> [] \<and>
     hd (im_ops (render sz pal rb w)) =
       (if rb then RoundedRectangle (0, 0, sz - 1, sz - 1) (max 2 (sz div 8)) (bg pal)
        else Rectangle (0, 0, sz - 1, sz - 1) (bg pal)) \<and>
     filter is_background (im_ops (render sz pal rb w)) = [hd (im_ops (render sz pal rb w))]"
  by (simp add: render_eq icon_image_def icon_ops_def Let_def py_int_8 node_ops_def line_op_def)

theorem background_fill_witness:
  "(1::int) \<le> 23 \<and>
   hd (im_ops (render 23 DARK True init_world)) = RoundedRectangle (0, 0, 22, 22) 2 [12, 26, 14] \<and>
   hd (im_ops (render 23 DARK False init_world)) = Rectangle (0, 0, 22, 22) [12, 26, 14]"
  using background_fill [of 23 DARK True init_world] background_fill [of 23 DARK False init_world]
  by (simp add: DARK_def)

subsection \<open>The entry point\<close>

text \<open>
  Claim C3, as stated, fails. With the script directory \<open>brand\<close> and POSIX paths, a run
  from the empty world saves twelve files: the two ICO files, then ten PNG files, which
  are two PNG sets of five (prefix \<open>icon-dark\<close>, then prefix \<open>icon-light\<close>), not four.
\<close>

theorem main_exports_counterexample:
  "map fst (saved (main ''brand'' posix_join init_world)) =
     [''brand/subnetree.ico'', ''brand/subnetree-light.ico'',
      ''brand/icon-dark-32.png'', ''brand/icon-dark-64.png'', ''brand/icon-dark-128.png'',
      ''brand/icon-dark-256.png'', ''brand/icon-dark-512.png'',
      ''brand/icon-light-32.png'', ''brand/icon-light-64.png'', ''brand/icon-light-128.png'',
      ''brand/icon-light-256.png'', ''brand/icon-light-512.png''] \<and>
   length (filter is_png (map snd (saved (main ''brand'' posix_join init_world)))) = 2 * 5 \<and>
   length (filter is_png (map snd (saved (main ''brand'' posix_join init_world)))) \<noteq> 4 * 5"
  by (simp add: main_def Let_def generate_ico_eq generate_pngs_eq print_def init_world_def posix_join_def)

text \<open>
  Claim C3, amended. In every world the entry point performs, in this order, the ICO
  export of \<open>subnetree.ico\<close> with the dark palette, the ICO export of
  \<open>subnetree-light.ico\<close> with the light palette, the PNG-set export with prefix
  \<open>icon-dark\<close> and the dark palette, and the PNG-set export with prefix \<open>icon-light\<close>
  and the light palette: two ICO saves followed by two sets of five PNG saves, and
  nothing else is saved.
\<close>

theorem main_exports:
  "saved (main script_dir path_join w) =
     saved w
     @ saved (generate_ico script_dir path_join ''subnetree.ico'' DARK init_world)
     @ saved (generate_ico script_dir path_join ''subnetree-light.ico'' LIGHT init_world)
     @ saved (generate_pngs script_dir path_join ''icon-dark'' DARK init_world)
     @ saved (generate_pngs script_dir path_join ''icon-light'' LIGHT init_world) \<and>
   map (\<lambda>(path, c). (path, is_png c)) (drop (length (saved w)) (saved (main script_dir path_join w))) =
     [(path_join script_dir ''subnetree.ico'', False),
      (path_join script_dir ''subnetree-light.ico'', False),
      (path_join script_dir ''icon-dark-32.png'', True),
      (path_join script_dir ''icon-dark-64.png'', True),
      (path_join script_dir ''icon-dark-128.png'', True),
      (path_join script_dir ''icon-dark-256.png'', True),
      (path_join script_dir ''icon-dark-512.png'', True),
      (path_join script_dir ''icon-light-32.png'', True),
      (path_join script_dir ''icon-light-64.png'', True),
      (path_join script_dir ''icon-light-128.png'', True),
      (path_join script_dir ''icon-light-256.png'', True),
      (path_join script_dir ''icon-light-512.png'', True)]"
  by (simp add: main_def Let_def generate_ico_eq generate_pngs_eq print_def init_world_def)

subsection \<open>Detail layers\<close>

text \<open>
  Claim C4. The discovery link is drawn from size 32, the satellite lines and nodes from
  48, the outer ring and the glow ring from 64: an element drawn at a qualifying size
  \<open>m\<close> is drawn at every size \<open>n\<close> from \<open>m\<close> upwards. Nothing else is added: an image
  has 7 lines (the trunk, two main branches, four leaf branches) plus 1 from 32 and 2
  more from 48, 16 filled ellipses (two for each of the eight base nodes) plus 4 from
  48, no ring below 64 and 2 from 64, and one background fill. At size 16 the drawing
  calls after the background are the 7 base lines and the 8 base nodes, listed below.
\<close>

theorem detail_layers_monotone:
  assumes "1 \<le> m" and "m \<le> n"
  shows
    "(32 \<le> m \<longrightarrow> drawn (discovery_link m pal) (render m pal rb w)
                 \<and> drawn (discovery_link n pal) (render n pal rb w)) \<and>
     (48 \<le> m \<longrightarrow> drawn (satellite_lines m pal @ satellite_strokes m pal @ satellite_dots m pal)
                   (render m pal rb w)
                 \<and> drawn (satellite_lines n pal @ satellite_strokes n pal @ satellite_dots n pal)
                     (render n pal rb w)) \<and>
     (64 \<le> m \<longrightarrow> drawn (rings m pal) (render m pal rb w)
                 \<and> drawn (rings n pal) (render n pal rb w)) \<and>
     length (filter is_line (im_ops (render n pal rb w)))
       = 7 + (if 32 \<le> n then 1 else 0) + (if 48 \<le> n then 2 else 0) \<and>
     length (filter is_disc (im_ops (render n pal rb w))) = 16 + (if 48 \<le> n then 4 else 0) \<and>
     length (filter is_ring (im_ops (render n pal rb w))) = (if 64 \<le> n then 2 else 0) \<and>
     length (im_ops (render n pal rb w))
       = 1 + length (filter is_line (im_ops (render n pal rb w)))
           + length (filter is_disc (im_ops (render n pal rb w)))
           + length (filter is_ring (im_ops (render n pal rb w))) \<and>
     tl (im_ops (render 16 pal rb w)) =
       [Line ((8, 12), (8, 8)) (line_green pal) 1,
        Line ((8, 8), (4, 5)) (line_green pal) 1,
        Line ((8, 8), (11, 5)) (line_green pal) 1,
        Line ((4, 5), (2, 3)) (line_earth pal) 1,
        Line ((4, 5), (6, 3)) (line_earth pal) 1,
        Line ((11, 5), (9, 3)) (line_earth pal) 1,
        Line ((11, 5), (13, 3)) (line_earth pal) 1,
        Ellipse (1, 2, 3, 4) (Some (card_col pal)) (Some (earth pal)) (Some 1),
        Ellipse (1, 2, 3, 4) (Some (earth pal)) None None,
        Ellipse (5, 2, 7, 4) (Some (card_col pal)) (Some (earth pal)) (Some 1),
        Ellipse (5, 2, 7, 4) (Some (earth pal)) None None,
        Ellipse (8, 2, 10, 4) (Some (card_col pal)) (Some (earth pal)) (Some 1),
        Ellipse (8, 2, 10, 4) (Some (earth pal)) None None,
        Ellipse (12, 2, 14, 4) (Some (card_col pal)) (Some (earth pal)) (Some 1),
        Ellipse (12, 2, 14, 4) (Some (earth pal)) None None,
        Ellipse (3, 4, 5, 6) (Some (card_col pal)) (Some (green pal)) (Some 1),
        Ellipse (3, 4, 5, 6) (Some (green pal)) None None,
        Ellipse (10, 4, 12, 6) (Some (card_col pal)) (Some (green pal)) (Some 1),
        Ellipse (10, 4, 12, 6) (Some (green pal)) None None,
        Ellipse (7, 7, 9, 9) (Some (card_col pal)) (Some (green pal)) (Some 1),
        Ellipse (7, 7, 9, 9) (Some (green pal)) None None,
        Ellipse (7, 11, 9, 13) (Some (card_col pal)) (Some (green pal)) (Some 1),
        Ellipse (7, 11, 9, 13) (Some (green pal)) None None]"
proof -
  have d: "drawn (xs @ ys) im = (drawn xs im \<and> drawn ys im)" for xs ys im
    by (simp add: drawn_def)
  have layers: "32 \<le> m \<longrightarrow> drawn (discovery_link m pal) (render m pal rb w)
                 \<and> drawn (discovery_link n pal) (render n pal rb w)"
    "48 \<le> m \<longrightarrow> drawn (satellite_lines m pal @ satellite_strokes m pal @ satellite_dots m pal)
                   (render m pal rb w)
                 \<and> drawn (satellite_lines n pal @ satellite_strokes n pal @ satellite_dots n pal)
                     (render n pal rb w)"
    "64 \<le> m \<longrightarrow> drawn (rings m pal) (render m pal rb w)
                 \<and> drawn (rings n pal) (render n pal rb w)"
    using assms by (simp_all add: render_eq d drawn_layers)
  have c: "length (filter is_line (im_ops (render n pal rb w)))
       = 7 + (if 32 \<le> n then 1 else 0) + (if 48 \<le> n then 2 else 0)"
     "length (filter is_disc (im_ops (render n pal rb w))) = 16 + (if 48 \<le> n then 4 else 0)"
     "length (filter is_ring (im_ops (render n pal rb w))) = (if 64 \<le> n then 2 else 0)"
     "length (im_ops (render n pal rb w))
       = 1 + length (filter is_line (im_ops (render n pal rb w)))
           + length (filter is_disc (im_ops (render n pal rb w)))
           + length (filter is_ring (im_ops (render n pal rb w)))"
    by (simp_all add: render_eq icon_image_def counts)
  show ?thesis
    apply (intro conjI)
           apply (rule layers)
          apply (rule layers)
         apply (rule layers)
        apply (rule c)
       apply (rule c)
      apply (rule c)
     apply (rule c)
    apply (simp add: render_eq icon_image_def ops_16)
    done
qed

theorem detail_layers_monotone_witness:
  "(1::int) \<le> 64 \<and> (64::int) \<le> 128 \<and>
   drawn (discovery_link 128 DARK) (render 128 DARK True init_world) \<and>
   drawn (satellite_lines 128 DARK @ satellite_strokes 128 DARK @ satellite_dots 128 DARK)
     (render 128 DARK True init_world) \<and>
   drawn (rings 128 DARK) (render 128 DARK True init_world) \<and>
   length (im_ops (render 128 DARK True init_world)) = 33"
  using detail_layers_monotone [of 64 128 DARK True init_world] by simp

subsection \<open>Determinism\<close>

text \<open>
  Claim C5. The image \<open>draw_icon\<close> returns is the same in every world it is called in:
  it depends on the size, the palette and the background flag only. A call allocates
  one new image and changes nothing else: the images already in the store, the output
  and the saved files are as before. Two calls in a row with the same arguments return
  two different references to images with identical contents, and the second call
  leaves the first image as it was.
\<close>

theorem draw_icon_deterministic:
  "render sz pal rb w1 = render sz pal rb w2 \<and>
   (case draw_icon sz pal rb w1 of (a, wa) \<Rightarrow>
      a = length (heap w1) \<and> length (heap wa) = Suc (length (heap w1)) \<and>
      take (length (heap w1)) (heap wa) = heap w1 \<and>
      stdout wa = stdout w1 \<and> saved wa = saved w1 \<and>
      (case draw_icon sz pal rb wa of (b, wb) \<Rightarrow>
         a \<noteq> b \<and> heap wb ! a = heap wa ! a \<and> heap wb ! b = heap wb ! a))"
  by (simp add: render_eq draw_icon_eq nth_append)

subsection \<open>The image returned\<close>

text \<open>
  Claim C6. For every size from 1 upwards, \<open>draw_icon\<close> returns a reference to an image
  in the store whose size is exactly (size, size), whose mode is RGBA (so it has an
  alpha channel) and which was created with the fully transparent colour (0, 0, 0, 0),
  which is therefore the colour wherever nothing is drawn.
\<close>

theorem render_size_mode:
  "1 \<le> sz \<Longrightarrow>
     (case draw_icon sz pal rb w of (img, w') \<Rightarrow>
        img < length (heap w') \<and> render sz pal rb w = heap w' ! img) \<and>
     im_size (render sz pal rb w) = (sz, sz) \<and>
     im_mode (render sz pal rb w) = ''RGBA'' \<and>
     im_fill (render sz pal rb w) = [0, 0, 0, 0]"
  by (simp add: render_eq draw_icon_eq icon_image_def)

theorem render_size_mode_witness:
  "(1::int) \<le> 16 \<and> im_size (render 16 DARK False init_world) = (16, 16)
     \<and> im_mode (render 16 DARK False init_world) = ''RGBA''
     \<and> im_fill (render 16 DARK False init_world) = [0, 0, 0, 0]"
  using render_size_mode [of 16 DARK False init_world] by simp

subsection \<open>The ICO export\<close>

text \<open>
  What \<open>generate_ico\<close> does, for every palette, file name and world: it renders the
  sizes 16, 24, 32, 48, 64, 128, 256 in this order (the seven images are allocated in
  this order), with the rounded-background flag true exactly for the sizes from 32, so
  that the first drawing call is a rounded rectangle for these and a plain rectangle for
  16 and 24. It makes one save call, in the ICO format, at the path joined from the
  script directory and the file name, on the 16-pixel image, with the seven
  (size, size) pairs and the other six images appended. Each raster is square, of its
  size. The frames \<open>render sz pal (32 \<le> sz) v\<close> are the images \<open>draw_icon\<close> returns in
  any world \<open>v\<close>.
\<close>

lemma generate_ico_frames:
  "(let w' = generate_ico script_dir path_join filename pal w;
        frames = map (\<lambda>sz. render sz pal (32 \<le> sz) v) [16, 24, 32, 48, 64, 128, 256]
    in heap w' = heap w @ frames \<and>
       saved w' = saved w @
         [(path_join script_dir filename,
           SaveICO (frames ! 0)
             [(16, 16), (24, 24), (32, 32), (48, 48), (64, 64), (128, 128), (256, 256)]
             (drop 1 frames))] \<and>
       stdout w' = stdout w @
         [''Created '' @ path_join script_dir filename
          @ '' (7 sizes: [16, 24, 32, 48, 64, 128, 256])''] \<and>
       length frames = 7 \<and>
       map im_size frames
         = [(16, 16), (24, 24), (32, 32), (48, 48), (64, 64), (128, 128), (256, 256)] \<and>
       map (\<lambda>im. is_rounded (hd (im_ops im))) frames
         = [False, False, True, True, True, True, True])"
  by (simp add: generate_ico_eq render_eq Let_def icon_image_def icon_ops_def)

text \<open>
  Claim C7 holds up to the save call and fails at the file. The docstring of
  \<open>generate_ico\<close> (\<^verbatim>\<open>Generate a multi-resolution ICO file\<close>), its comment
  (\<^verbatim>\<open>Pillow handles multi-size automatically\<close>) and the line it prints
  (\<^verbatim>\<open>7 sizes\<close>) say that the file is to hold all seven rasters. But \<^verbatim>\<open>save\<close> is
  called on \<^verbatim>\<open>images[0]\<close>, the 16-pixel raster, and the writer leaves out every
  requested size larger than that image. For the dark icon, with the script directory
  \<open>brand\<close> and POSIX paths, from the empty world: the one save call is on an image of size
  (16, 16), six images are appended and seven sizes are asked for, and the file gets the
  single frame (16, 16), not seven.
\<close>

theorem generate_ico_one_frame:
  "map fst (saved (generate_ico ''brand'' posix_join ''subnetree.ico'' DARK init_world))
     = [''brand/subnetree.ico''] \<and>
   map snd (saved (generate_ico ''brand'' posix_join ''subnetree.ico'' DARK init_world))
     = [SaveICO (render 16 DARK False init_world)
          [(16, 16), (24, 24), (32, 32), (48, 48), (64, 64), (128, 128), (256, 256)]
          [render 24 DARK False init_world, render 32 DARK True init_world,
           render 48 DARK True init_world, render 64 DARK True init_world,
           render 128 DARK True init_world, render 256 DARK True init_world]] \<and>
   im_size (render 16 DARK False init_world) = (16, 16) \<and>
   map ico_written_sizes
       (map snd (saved (generate_ico ''brand'' posix_join ''subnetree.ico'' DARK init_world)))
     = [[(16, 16)]] \<and>
   length (concat (map ico_written_sizes
       (map snd (saved (generate_ico ''brand'' posix_join ''subnetree.ico'' DARK init_world)))))
     \<noteq> 7"
  by (simp add: generate_ico_eq render_eq init_world_def posix_join_def icon_image_def)

subsection \<open>The PNG export\<close>

text \<open>
  Claim C8. For every prefix, palette and world, \<open>generate_pngs\<close> renders the sizes 32,
  64, 128, 256, 512 in this order, each with a rounded background (the first drawing
  call is the rounded rectangle), and makes exactly five save calls in the PNG format,
  one per size, on the image of that size, at the path joined from the script directory
  and the name prefix-size.png. The five names are distinct and each image is square,
  of its size.
\<close>

theorem generate_pngs_files:
  "(let w' = generate_pngs script_dir path_join prefix pal w;
        names = map (\<lambda>sz. prefix @ ''-'' @ py_str sz @ ''.png'') [32, 64, 128, 256, 512];
        images = map (\<lambda>sz. render sz pal True v) [32, 64, 128, 256, 512]
    in names = [prefix @ ''-32.png'', prefix @ ''-64.png'', prefix @ ''-128.png'',
                prefix @ ''-256.png'', prefix @ ''-512.png''] \<and>
       distinct names \<and>
       heap w' = heap w @ images \<and>
       saved w' = saved w @ map2 (\<lambda>name im. (path_join script_dir name, SavePNG im)) names images \<and>
       stdout w' = stdout w @ map (\<lambda>name. ''Created '' @ path_join script_dir name) names \<and>
       length (map2 (\<lambda>name im. (path_join script_dir name, SavePNG im)) names images) = 5 \<and>
       map im_size images = [(32, 32), (64, 64), (128, 128), (256, 256), (512, 512)] \<and>
       map (\<lambda>im. hd (im_ops im)) images
         = map (\<lambda>sz. RoundedRectangle (0, 0, sz - 1, sz - 1) (sz div 8) (bg pal))
             [32, 64, 128, 256, 512])"
  by (simp add: generate_pngs_eq render_eq Let_def py_str_values icon_image_def icon_ops_def)

subsection \<open>Widths and radii\<close>

text \<open>
  Claim C9. For every size from 1 upwards, every width given to a drawing call (of a
  line or of an ellipse outline) is at least 1, and every radius is at least 1: the
  half extents of every ellipse, among them the outer ring and the glow ring, which are
  drawn from size 64 only, and the corner radius of the rounded background. The helper
  \<open>lw\<close> returns at least 1 for every design width.
\<close>

theorem widths_radii_at_least_one:
  "1 \<le> sz \<Longrightarrow>
     list_all (\<lambda>op. list_all (\<lambda>x. 1 \<le> x) (op_widths op) \<and> list_all (\<lambda>r. 1 \<le> r) (op_radii op))
       (im_ops (render sz pal rb w))
     \<and> 1 \<le> lw (of_int sz / 256) x"
  using ring_radius [of sz] glow_radius [of sz]
  by (auto simp add: render_eq icon_image_def icon_ops_def Let_def node_ops_def op_radii_disc
      op_widths_line_op op_radii_line_op lw_pos px_ge1 py_int_8)

theorem widths_radii_at_least_one_witness:
  "(1::int) \<le> 64 \<and>
   list_all (\<lambda>op. list_all (\<lambda>x. 1 \<le> x) (op_widths op) \<and> list_all (\<lambda>r. 1 \<le> r) (op_radii op))
     (im_ops (render 64 DARK True init_world))
   \<and> 1 \<le> lw (of_int 64 / 256) 2"
  using widths_radii_at_least_one [of 64 DARK True init_world 2] by simp

subsection \<open>The colour of the satellite lines\<close>

text \<open>
  Claim C10. From size 48 the two satellite lines are drawn with the first three
  components of the palette's \<open>sage\<close> entry followed by the alpha 38. The lines of the
  image do not change when the \<open>sage_dim\<close> entry is replaced by any colour \<open>c\<close>; the only
  drawing calls that may change are the outer circles of the two satellite nodes, whose
  outline is \<open>sage_dim\<close>. For the two palettes of the script the line colour has alpha 38
  and \<open>sage_dim\<close> has alpha 127.
\<close>

theorem satellite_line_colour:
  assumes "48 \<le> sz"
  shows
    "(let s = of_int sz / 256; ops = im_ops (render sz pal rb w)
      in Line (sc s 128 132, sc s 96 156) (take 3 (sage pal) @ [38]) (lw s 2) \<in> set ops \<and>
         Line (sc s 128 132, sc s 164 152) (take 3 (sage pal) @ [38]) (lw s 2) \<in> set ops \<and>
         filter is_line (im_ops (render sz (pal\<lparr>sage_dim := c\<rparr>) rb w)) = filter is_line ops \<and>
         drawn (satellite_strokes sz pal) (render sz pal rb w) \<and>
         list_all2 (\<lambda>a b. a = b \<or> a \<in> set (satellite_strokes sz pal))
           ops (im_ops (render sz (pal\<lparr>sage_dim := c\<rparr>) rb w))) \<and>
     take 3 (sage DARK) @ [38] = [156, 163, 137, 38] \<and> sage_dim DARK = [156, 163, 137, 127] \<and>
     take 3 (sage LIGHT) @ [38] = [107, 122, 86, 38] \<and> sage_dim LIGHT = [100, 116, 80, 127]"
  using assms
  by (simp add: Let_def render_eq icon_image_def icon_ops_def line_op_def node_ops_def px_def
      satellite_strokes_def drawn_def DARK_def LIGHT_def)

theorem satellite_line_colour_witness:
  "(48::int) \<le> 48 \<and>
   Line ((24, 24), (18, 29)) [156, 163, 137, 38] 1 \<in> set (im_ops (render 48 DARK True init_world)) \<and>
   Line ((24, 24), (30, 28)) [156, 163, 137, 38] 1 \<in> set (im_ops (render 48 DARK True init_world))"
  using satellite_line_colour [of 48 DARK True init_world]
  by (simp add: Let_def sc_def lw_def DARK_def)

end
